theory Spec2Isabelle
  imports Complex_Main "HOL-Library.Log_Nat"
begin

section \<open>Python strings: case mapping, substring test, decimal rendering\<close>

text \<open>
  Strings are lists of 8-bit characters. \<open>str.upper\<close> and \<open>str.lower\<close> are modelled on
  the ASCII letters, every other character is left as it is. The operator \<open>sub in s\<close>
  on strings is the test for a contiguous substring.
\<close>

definition upper_char :: "char \<Rightarrow> char" where
  "upper_char c =
     (case map_of (zip ''abcdefghijklmnopqrstuvwxyz'' ''ABCDEFGHIJKLMNOPQRSTUVWXYZ'') c of
        None \<Rightarrow> c | Some u \<Rightarrow> u)"

definition lower_char :: "char \<Rightarrow> char" where
  "lower_char c =
     (case map_of (zip ''ABCDEFGHIJKLMNOPQRSTUVWXYZ'' ''abcdefghijklmnopqrstuvwxyz'') c of
        None \<Rightarrow> c | Some l \<Rightarrow> l)"

definition upper :: "string \<Rightarrow> string" where
  "upper s = map upper_char s"

definition lower :: "string \<Rightarrow> string" where
  "lower s = map lower_char s"

fun starts_with :: "string \<Rightarrow> string \<Rightarrow> bool" where
  "starts_with s [] = True"
| "starts_with [] (c # cs) = False"
| "starts_with (x # xs) (c # cs) = (x = c \<and> starts_with xs cs)"

fun contains :: "string \<Rightarrow> string \<Rightarrow> bool" where
  "contains [] sub = (sub = [])"
| "contains (x # xs) sub = (starts_with (x # xs) sub \<or> contains xs sub)"

definition digit_char :: "nat \<Rightarrow> char" where
  "digit_char d = ''0123456789'' ! d"

fun str_nat :: "nat \<Rightarrow> string" where
  "str_nat n = (if n < 10 then [digit_char n] else str_nat (n div 10) @ [digit_char (n mod 10)])"

declare str_nat.simps [simp del]

definition str_int :: "int \<Rightarrow> string" where
  "str_int i = (if i < 0 then CHR ''-'' # str_nat (nat (- i)) else str_nat (nat i))"

text \<open>
  The text of an AttributeError: \<open>'C' object has no attribute 'a'\<close>.
\<close>

definition quoted :: "string \<Rightarrow> string" where
  "quoted x = [CHR 0x27] @ x @ [CHR 0x27]"

definition no_attribute :: "string \<Rightarrow> string \<Rightarrow> string" where
  "no_attribute c a = quoted c @ '' object has no attribute '' @ quoted a"

section \<open>Score Synthesizer (agents/synthesizer_agent.py)\<close>

text \<open>
  An analysis result is a \<open>Dict[str, Any]\<close> produced from one of the pydantic schemas of
  agents/schemas.py. The record keeps the keys the synthesizer and the decision engine
  read, each of them optional (a key may be missing from the dictionary), with the types
  the schemas give them, and the names of whatever other keys the dictionary holds.
  The empty dictionary \<open>{}\<close> has no key at all.
\<close>

record analysis =
  score :: "int option"
  risk_score :: "int option"
  rating :: "string option"
  signal :: "string option"
  overall_sentiment :: "string option"
  other_keys :: "string list"

definition empty_dict :: analysis where
  "empty_dict = \<lparr>score = None, risk_score = None, rating = None, signal = None,
                  overall_sentiment = None, other_keys = []\<rparr>"

record user_context =
  time_horizon :: "string option"

definition empty_context :: user_context where
  "empty_context = \<lparr>time_horizon = None\<rparr>"

text \<open>The dictionary \<open>weights\<close>, with its four keys.\<close>

record weights =
  fundamental :: rat
  technical :: rat
  market_intel :: rat
  risk :: rat

text \<open>The dictionary returned by \<open>_calculate_weighted_scores\<close>.\<close>

record weighted_scores =
  fundamental_score :: int
  technical_score :: int
  market_intel_score :: int
  reported_risk_score :: int
  weighted_average :: rat
  confidence_adjustment :: int
  final_score :: rat
  weights_used :: weights
  conflicts :: "string list"

text \<open>
  In \<open>select_weights\<close> and in the weighted sum, decimal literals such as \<open>0.50\<close> are
  read as the rational numbers they denote, and arithmetic on them is exact; the doubles
  that hold the weights are given by \<open>as_doubles\<close> below. \<open>round(x, 2)\<close> rounds to two
  decimal places, ties to the even neighbour.
\<close>

definition round2 :: "rat \<Rightarrow> rat" where
  "round2 x =
     (let y = x * 100; f = \<lfloor>y\<rfloor>; d = y - of_int f
      in of_int (if d < 1 / 2 then f else if 1 / 2 < d then f + 1
                 else if even f then f else f + 1) / 100)"

definition select_weights :: "string \<Rightarrow> weights" where
  "select_weights horizon =
     (if contains (lower horizon) ''long'' then
        \<lparr>fundamental = 50 / 100, technical = 20 / 100, market_intel = 20 / 100, risk = 10 / 100\<rparr>
      else if contains (lower horizon) ''short'' then
        \<lparr>fundamental = 15 / 100, technical = 50 / 100, market_intel = 25 / 100, risk = 10 / 100\<rparr>
      else
        \<lparr>fundamental = 30 / 100, technical = 40 / 100, market_intel = 20 / 100, risk = 10 / 100\<rparr>)"

subsection \<open>The weights as doubles\<close>

text \<open>
  The interpreter holds each weight as the IEEE 754 binary64 number nearest to its
  decimal literal, and adds two such numbers by rounding their exact sum in the same
  way. \<open>to_double\<close> is that rounding, to nearest with ties to the even significand, for
  magnitudes in the normal range: \<open>binade a\<close> is the exponent \<open>e\<close> with
  \<open>2 ^ e \<le> a < 2 ^ (e + 1)\<close>, and the significand has 53 bits.
\<close>

definition round_half_even :: "rat \<Rightarrow> int" where
  "round_half_even y =
     (let f = \<lfloor>y\<rfloor>; d = y - of_int f
      in if d < 1 / 2 then f else if 1 / 2 < d then f + 1 else if even f then f else f + 1)"

definition pow2 :: "int \<Rightarrow> rat" where
  "pow2 k = (if 0 \<le> k then 2 ^ nat k else 1 / 2 ^ nat (- k))"

definition binade :: "rat \<Rightarrow> int" where
  "binade a = (if 1 \<le> a then bitlen \<lfloor>a\<rfloor> - 1 else - bitlen (\<lceil>1 / a\<rceil> - 1))"

definition to_double :: "rat \<Rightarrow> rat" where
  "to_double x =
     (if x = 0 then 0
      else (let a = \<bar>x\<bar>; e = binade a; m = round_half_even (a * pow2 (52 - e))
            in sgn x * of_int m * pow2 (e - 52)))"



definition bullish :: "string list" where
  "bullish = [''STRONG_BUY'', ''BUY'', ''BULLISH'', ''POSITIVE'', ''UNDERVALUED'']"

definition bearish :: "string list" where
  "bearish = [''STRONG_SELL'', ''SELL'', ''BEARISH'', ''NEGATIVE'', ''OVERVALUED'']"

definition normalize_signal :: "string \<Rightarrow> string" where
  "normalize_signal sig =
     (let s = upper sig
      in if list_ex (\<lambda>k. contains s k) bullish then ''BULLISH''
         else if list_ex (\<lambda>k. contains s k) bearish then ''BEARISH''
         else ''NEUTRAL'')"

definition detect_conflicts :: "string list \<Rightarrow> string list" where
  "detect_conflicts signals =
     (let bullish_count = count_list signals ''BULLISH'';
          bearish_count = count_list signals ''BEARISH''
      in if bullish_count > 0 \<and> bearish_count > 0
         then [''Mixed signals: '' @ str_nat bullish_count @ '' bullish, ''
               @ str_nat bearish_count @ '' bearish'']
         else [])"

text \<open>
  The confidence adjustment starts at 0; it becomes 10 when the list of conflicts is
  empty, and -20 when the list has two entries or more.
\<close>

definition adjust_for_conflicts :: "string list \<Rightarrow> int" where
  "adjust_for_conflicts cs = (if cs = [] then 10 else if length cs \<ge> 2 then - 20 else 0)"

definition get_or :: "'a option \<Rightarrow> 'a \<Rightarrow> 'a" where
  "get_or v d = (case v of None \<Rightarrow> d | Some x \<Rightarrow> x)"

definition calculate_weighted_scores ::
  "analysis \<Rightarrow> analysis \<Rightarrow> analysis \<Rightarrow> analysis \<Rightarrow> user_context \<Rightarrow> weighted_scores" where
  "calculate_weighted_scores fund tech intel rsk ctx =
     (let horizon = get_or (time_horizon ctx) ''medium'';
          w = select_weights horizon;
          fund_score = get_or (score fund) 50;
          tech_score = get_or (score tech) 50;
          intel_score = get_or (score intel) 50;
          inv_risk_score = 100 - get_or (risk_score rsk) 50;
          weighted = of_int fund_score * fundamental w
                     + of_int tech_score * technical w
                     + of_int intel_score * market_intel w
                     + of_int inv_risk_score * risk w;
          signals = [normalize_signal (get_or (rating fund) ''HOLD''),
                     normalize_signal (get_or (signal tech) ''NEUTRAL''),
                     normalize_signal (get_or (overall_sentiment intel) ''NEUTRAL'')];
          cs = detect_conflicts signals;
          adj = adjust_for_conflicts cs
      in \<lparr>fundamental_score = fund_score,
          technical_score = tech_score,
          market_intel_score = intel_score,
          reported_risk_score = get_or (risk_score rsk) 50,
          weighted_average = round2 weighted,
          confidence_adjustment = adj,
          final_score = round2 (weighted + of_int adj),
          weights_used = w,
          conflicts = cs\<rparr>)"

section \<open>Intent validation (orchestrator/routing.py)\<close>

datatype intent_type =
  PRICE_CHECK | TECHNICAL_ANALYSIS | FUNDAMENTAL_ANALYSIS | SENTIMENT_ANALYSIS
  | FULL_ANALYSIS | COMPARISON | DEEP_DIVE | HELP | UNKNOWN

record intent =
  intent_type :: intent_type
  tickers :: "string list"
  raw_query :: string
  confidence :: rat
  aspect :: "string option"

text \<open>\<open>Router.validate_intent\<close> returns the pair \<open>(is_valid, error_message)\<close>.\<close>

definition validate_intent :: "intent \<Rightarrow> bool \<times> string option" where
  "validate_intent i =
     (if intent_type i = UNKNOWN then
        (False, Some ''I couldn't understand your request. Try `/help` for available commands.'')
      else if intent_type i = HELP then (True, None)
      else if tickers i = [] then
        (False, Some ''Please specify a stock ticker. Example: `/a RELIANCE`'')
      else if intent_type i = COMPARISON \<and> length (tickers i) < 2 then
        (False, Some ''Please specify two tickers for comparison. Example: `/c TCS INFY`'')
      else (True, None))"

section \<open>Portfolio Decision Engine (orchestrator/portfolio_workflow.py)\<close>

text \<open>
  Prices and percentages are Python floats; they are modelled as rational numbers with
  exact arithmetic. A holding is a row of the \<open>portfolios\<close> table; \<open>stop_loss\<close> and
  \<open>target_price\<close> are nullable columns.
\<close>

record holding =
  holding_ticker :: string
  quantity :: int
  avg_price :: rat
  stop_loss :: "rat option"
  target_price :: "rat option"

datatype portfolio_action =
  HOLD | ADD_MORE | BOOK_PARTIAL_25 | BOOK_PARTIAL_50 | BOOK_ALL | STOP_LOSS_HIT
  | REBALANCE | TRAILING_STOP

datatype priority = URGENT | HIGH | MEDIUM | LOW

text \<open>
  The \<open>reason\<close> and the \<open>notes\<close> of a decision are formatted strings. The model keeps which
  template was used and the values interpolated into it, not the rendered text.
\<close>

datatype reason =
  NearStopLoss rat
  | LargeLossWeakFundamentals rat
  | DownFundamentalsIntact rat
  | TargetReached rat
  | ProfitTechnicalsWeakening rat
  | LargeProfitSecureGains rat
  | GoodProfitTrailingStop rat
  | FundamentalsDeteriorated
  | StrongTechnicalSetup
  | ProfitHoldForMore rat
  | ProfitSecurePartial rat
  | DownBuyingOpportunity rat
  | DownMonitor rat
  | UpStrongOutlook rat
  | UpNoAction rat
  | PositionStable

datatype decision_note =
  CurrentAndStop rat rat
  | FundamentalScoreNote int
  | ConsiderTrailingStop
  | TechnicalScoreNote int
  | FundamentalDroppedTo int
  | ProfitableBy rat
  | FundTechNote int int

record action_decision =
  action :: portfolio_action
  reason :: reason
  priority :: priority
  decision_notes :: "decision_note list"

text \<open>
  Truth value of an optional float: \<open>None\<close> and \<open>0.0\<close> are false. The stop-loss check
  and the target check are the two places that test a nullable column; each yields its
  decision when it fires (the function returns there) and \<open>None\<close> when it does not.
\<close>

definition stop_loss_check :: "holding \<Rightarrow> rat \<Rightarrow> action_decision option" where
  "stop_loss_check h cur_price =
     (case stop_loss h of
        None \<Rightarrow> None
      | Some sl \<Rightarrow>
          if sl \<noteq> 0 \<and> ((cur_price - sl) / sl) * 100 \<le> 2 then
            Some \<lparr>action = STOP_LOSS_HIT, reason = NearStopLoss sl, priority = URGENT,
                  decision_notes = [CurrentAndStop cur_price sl]\<rparr>
          else None)"

definition target_check :: "holding \<Rightarrow> rat \<Rightarrow> action_decision option" where
  "target_check h cur_price =
     (case target_price h of
        None \<Rightarrow> None
      | Some tp \<Rightarrow>
          if tp \<noteq> 0 \<and> cur_price \<ge> tp then
            Some \<lparr>action = BOOK_PARTIAL_50, reason = TargetReached tp, priority = HIGH,
                  decision_notes = [ConsiderTrailingStop]\<rparr>
          else None)"

definition agent_score :: "analysis option \<Rightarrow> int" where
  "agent_score a = (case a of None \<Rightarrow> 50 | Some d \<Rightarrow> get_or (score d) 50)"

text \<open>
  \<open>_determine_action\<close>: the parameters \<open>days_held\<close> and \<open>user\<close> are not read by the
  function; \<open>days_held\<close> is kept, \<open>user\<close> is left out.
\<close>

definition determine_action ::
  "holding \<Rightarrow> rat \<Rightarrow> rat \<Rightarrow> int \<Rightarrow> analysis option \<Rightarrow> analysis option \<Rightarrow> action_decision" where
  "determine_action h cur_price pnl_percent days_held fund tech =
     (let fund_score = agent_score fund;
          tech_score = agent_score tech
      in
      case stop_loss_check h cur_price of Some d \<Rightarrow> d | None \<Rightarrow>
      if pnl_percent \<le> - 15 then
        (if fund_score < 40 then
           \<lparr>action = BOOK_ALL, reason = LargeLossWeakFundamentals pnl_percent,
            priority = URGENT, decision_notes = [FundamentalScoreNote fund_score]\<rparr>
         else
           \<lparr>action = HOLD, reason = DownFundamentalsIntact pnl_percent,
            priority = HIGH, decision_notes = [FundamentalScoreNote fund_score]\<rparr>)
      else case target_check h cur_price of Some d \<Rightarrow> d | None \<Rightarrow>
      if pnl_percent \<ge> 25 then
        (if tech_score < 45 then
           \<lparr>action = BOOK_PARTIAL_50, reason = ProfitTechnicalsWeakening pnl_percent,
            priority = HIGH, decision_notes = [TechnicalScoreNote tech_score]\<rparr>
         else if pnl_percent \<ge> 50 then
           \<lparr>action = BOOK_PARTIAL_25, reason = LargeProfitSecureGains pnl_percent,
            priority = MEDIUM, decision_notes = [TechnicalScoreNote tech_score]\<rparr>
         else
           \<lparr>action = TRAILING_STOP, reason = GoodProfitTrailingStop pnl_percent,
            priority = MEDIUM, decision_notes = [TechnicalScoreNote tech_score]\<rparr>)
      else if fund_score < 35 then
        \<lparr>action = BOOK_ALL, reason = FundamentalsDeteriorated, priority = HIGH,
         decision_notes = [FundamentalDroppedTo fund_score]\<rparr>
      else if tech_score \<ge> 75 \<and> pnl_percent < 10 then
        \<lparr>action = ADD_MORE, reason = StrongTechnicalSetup, priority = MEDIUM,
         decision_notes = [TechnicalScoreNote tech_score, ProfitableBy pnl_percent]\<rparr>
      else if 10 \<le> pnl_percent \<and> pnl_percent < 25 then
        (if fund_score \<ge> 70 \<and> tech_score \<ge> 65 then
           \<lparr>action = HOLD, reason = ProfitHoldForMore pnl_percent, priority = LOW,
            decision_notes = [FundTechNote fund_score tech_score]\<rparr>
         else
           \<lparr>action = BOOK_PARTIAL_25, reason = ProfitSecurePartial pnl_percent,
            priority = MEDIUM, decision_notes = [FundTechNote fund_score tech_score]\<rparr>)
      else if - 15 < pnl_percent \<and> pnl_percent < 0 then
        (if fund_score \<ge> 70 \<and> tech_score \<ge> 60 then
           \<lparr>action = ADD_MORE, reason = DownBuyingOpportunity pnl_percent, priority = MEDIUM,
            decision_notes = [FundTechNote fund_score tech_score]\<rparr>
         else
           \<lparr>action = HOLD, reason = DownMonitor pnl_percent, priority = LOW,
            decision_notes = [FundTechNote fund_score tech_score]\<rparr>)
      else if 0 \<le> pnl_percent \<and> pnl_percent < 10 then
        (if fund_score \<ge> 70 \<and> tech_score \<ge> 70 then
           \<lparr>action = HOLD, reason = UpStrongOutlook pnl_percent, priority = LOW,
            decision_notes = [FundTechNote fund_score tech_score]\<rparr>
         else
           \<lparr>action = HOLD, reason = UpNoAction pnl_percent, priority = LOW,
            decision_notes = [FundTechNote fund_score tech_score]\<rparr>)
      else
        \<lparr>action = HOLD, reason = PositionStable, priority = LOW,
         decision_notes = [FundTechNote fund_score tech_score]\<rparr>)"

text \<open>
  What a call of an external collaborator does: it raises an instance of \<open>Exception\<close>,
  with the text of the exception; or it raises an exception that derives from
  \<open>BaseException\<close> only, such as \<open>asyncio.CancelledError\<close>, kept with the name of its
  class; or it returns. (\<open>KeyboardInterrupt\<close> and \<open>SystemExit\<close> end the event loop and
  are not among them.)
\<close>

datatype 'a outcome = Raised string | RaisedBase string | Returned 'a

text \<open>
  The caller, \<open>_analyze_single_holding\<close>, computes the profit and loss percentage from the
  holding and the current price. It gathers the two analyses with
  \<open>return_exceptions=True\<close> and replaces a result that is an instance of \<open>Exception\<close> by
  \<open>None\<close>. Any other exception object is passed on as it is, and \<open>_determine_action\<close>
  raises AttributeError when it reads \<open>.get\<close> from it, the fundamental result first.
\<close>

definition holding_pnl_percent :: "holding \<Rightarrow> rat \<Rightarrow> rat" where
  "holding_pnl_percent h cur_price =
     (let current_value = of_int (quantity h) * cur_price;
          cost_basis = of_int (quantity h) * avg_price h;
          pnl = current_value - cost_basis
      in if cost_basis > 0 then pnl / cost_basis * 100 else 0)"

definition gathered_analysis :: "analysis outcome \<Rightarrow> string + analysis option" where
  "gathered_analysis r =
     (case r of Raised err \<Rightarrow> Inr None | RaisedBase c \<Rightarrow> Inl c | Returned a \<Rightarrow> Inr (Some a))"

definition analyze_single_holding ::
  "holding \<Rightarrow> rat \<Rightarrow> int \<Rightarrow> analysis outcome \<Rightarrow> analysis outcome
   \<Rightarrow> string + action_decision" where
  "analyze_single_holding h cur_price days_held fund_result tech_result =
     (case gathered_analysis fund_result of
        Inl c \<Rightarrow> Inl (no_attribute c ''get'')
      | Inr fund \<Rightarrow>
          (case gathered_analysis tech_result of
             Inl c \<Rightarrow> Inl (no_attribute c ''get'')
           | Inr tech \<Rightarrow>
               Inr (determine_action h cur_price (holding_pnl_percent h cur_price) days_held
                      fund tech)))"

section \<open>Pipeline state and external collaborators (orchestrator/langgraph_flow.py)\<close>

text \<open>
  The data sources and the analysis producers are external. Each call raises an
  instance of \<open>Exception\<close> (\<open>Raised\<close>), raises something else (\<open>RaisedBase\<close>), or returns; a
  data source may return \<open>None\<close> or an empty result, both written \<open>Returned None\<close>. One
  day of historical data is one entry of \<open>historical_ohlcv\<close>.
\<close>

record price_data =
  current_price :: rat
  historical_ohlcv :: "rat list"

record stock =
  stock_ticker :: string
  price_data :: "price_data option"

type_synonym news = "string list"

type_synonym market = "(string \<times> rat) list"

type_synonym recommendation = "(string \<times> string) list"

text \<open>
  A slot of the state is annotated as an optional dictionary. The code also stores a
  gathered result that is neither a dictionary nor an instance of \<open>Exception\<close>; such a
  value is kept as \<open>Object c\<close>, with the name \<open>c\<close> of its class.
\<close>

datatype 'a stored = Dict 'a | Object string

text \<open>
  The values found in the dictionary handed to the synthesizer and in the keyword
  arguments of a call: \<open>None\<close>, a string, one of the dictionaries above, or another
  object.
\<close>

datatype data_value =
  DNone | DStr string | DAnalysis analysis | DStock stock | DContext user_context
  | DObject string

type_synonym data = "(string \<times> data_value) list"

record env =
  cache_get_price :: "string \<Rightarrow> price_data option outcome"
  get_quick_price :: "string \<Rightarrow> price_data option outcome"
  get_stock_data :: "string \<Rightarrow> nat \<Rightarrow> stock option outcome"
  get_news :: "string \<Rightarrow> news option outcome"
  get_market_data :: "market option outcome"
  fundamental_agent :: "stock \<Rightarrow> string \<Rightarrow> analysis outcome"
  technical_agent :: "stock \<Rightarrow> string \<Rightarrow> analysis outcome"
  market_intel_agent ::
    "stock \<Rightarrow> news stored option \<Rightarrow> market option \<Rightarrow> string \<Rightarrow> analysis outcome"
  risk_agent ::
    "stock \<Rightarrow> analysis stored option \<Rightarrow> analysis stored option \<Rightarrow> string \<Rightarrow> analysis outcome"
  synthesizer_llm :: "data \<Rightarrow> weighted_scores \<Rightarrow> recommendation outcome"
  comparison_llm :: "data_value \<Rightarrow> data_value \<Rightarrow> string outcome"

text \<open>\<open>GraphState\<close>; the wall-clock field \<open>start_time\<close> is left out.\<close>

record graph_state =
  ticker :: string
  ticker_2 :: "string option"
  intent :: intent_type
  user_id :: "string option"
  stock_data :: "stock option"
  stock_data_2 :: "stock option"
  news_data :: "news stored option"
  market_data :: "market option"
  fundamental_analysis :: "analysis stored option"
  fundamental_analysis_2 :: "analysis stored option"
  technical_analysis :: "analysis stored option"
  technical_analysis_2 :: "analysis stored option"
  market_intel_analysis :: "analysis stored option"
  risk_analysis :: "analysis stored option"
  synthesized_recommendation :: "recommendation option"
  errors :: "string list"
  progress :: "string list"
  execution_path :: string

definition add_error :: "string \<Rightarrow> graph_state \<Rightarrow> graph_state" where
  "add_error msg s = s\<lparr>errors := errors s @ [msg]\<rparr>"

definition add_progress :: "string \<Rightarrow> graph_state \<Rightarrow> graph_state" where
  "add_progress msg s = s\<lparr>progress := progress s @ [msg]\<rparr>"

text \<open>
  Progress messages are kept without the leading check mark. \<open>score_text\<close> is the
  rendering of \<open>result.get('score', 0)\<close> followed by \<open>/100\<close>.
\<close>

definition score_text :: "int option \<Rightarrow> string" where
  "score_text v = str_int (get_or v 0) @ ''/100''"

text \<open>
  The body of a \<open>try\<close> block works on the state in place and may stop at an exception:
  its result is the state as the body left it, and the text of the exception if one was
  raised. \<open>then_do\<close> runs the next statement when the previous one raised nothing;
  \<open>handled\<close> is the \<open>except Exception\<close> clause, which appends one tagged entry to
  \<open>errors\<close>.
\<close>

type_synonym attempt = "graph_state \<times> string option"

definition then_do :: "attempt \<Rightarrow> (graph_state \<Rightarrow> attempt) \<Rightarrow> attempt" where
  "then_do r f = (case r of (s, None) \<Rightarrow> f s | (s, Some x) \<Rightarrow> (s, Some x))"

definition handled :: "string \<Rightarrow> attempt \<Rightarrow> graph_state" where
  "handled tag r = (case r of (s, None) \<Rightarrow> s | (s, Some x) \<Rightarrow> add_error (tag @ x) s)"

subsection \<open>The synthesizer's \<open>analyze\<close> and \<open>compare\<close>\<close>

text \<open>
  \<open>data.get(key, {})\<close> yields the empty dictionary when the key is missing and the stored
  value otherwise, which may be \<open>None\<close>. Reading \<open>.get\<close> from a value that is not a
  dictionary raises AttributeError; the text kept is the one for \<open>None\<close>. A dictionary of
  another shape has none of the keys that are read.
\<close>

definition data_get :: "data \<Rightarrow> string \<Rightarrow> data_value \<Rightarrow> data_value" where
  "data_get d k dflt = (case map_of d k of None \<Rightarrow> dflt | Some v \<Rightarrow> v)"

definition as_analysis :: "data_value \<Rightarrow> analysis option" where
  "as_analysis v =
     (case v of DAnalysis a \<Rightarrow> Some a | DStock x \<Rightarrow> Some empty_dict
      | DContext c \<Rightarrow> Some empty_dict | DNone \<Rightarrow> None | DStr x \<Rightarrow> None
      | DObject c \<Rightarrow> None)"

definition as_context :: "data_value \<Rightarrow> user_context option" where
  "as_context v =
     (case v of DContext c \<Rightarrow> Some c | DAnalysis a \<Rightarrow> Some empty_context
      | DStock x \<Rightarrow> Some empty_context | DNone \<Rightarrow> None | DStr x \<Rightarrow> None
      | DObject c \<Rightarrow> None)"

definition is_dict :: "data_value \<Rightarrow> bool" where
  "is_dict v = (case v of DNone \<Rightarrow> False | DStr x \<Rightarrow> False | DObject c \<Rightarrow> False | _ \<Rightarrow> True)"

definition attribute_error :: string where
  "attribute_error = no_attribute ''NoneType'' ''get''"

text \<open>The first part of \<open>analyze\<close>: the five lookups and the weighted-score block.\<close>

definition analyze_scores :: "data \<Rightarrow> string + weighted_scores" where
  "analyze_scores d =
     (let fund = data_get d ''fundamental_analysis'' (DAnalysis empty_dict);
          tech = data_get d ''technical_analysis'' (DAnalysis empty_dict);
          intel = data_get d ''market_intel_analysis'' (DAnalysis empty_dict);
          rsk = data_get d ''risk_analysis'' (DAnalysis empty_dict);
          ctx = data_get d ''user_context'' (DContext empty_context)
      in case (as_context ctx, as_analysis fund, as_analysis tech, as_analysis intel,
               as_analysis rsk) of
           (Some c, Some f, Some t, Some m, Some r) \<Rightarrow>
             Inr (calculate_weighted_scores f t m r c)
         | _ \<Rightarrow> Inl attribute_error)"

text \<open>
  The rest of \<open>analyze\<close> builds the prompt, which reads \<open>stock_data\<close> as a dictionary, and
  asks the language model; both are the collaborator \<open>synthesizer_llm\<close>. The call of the
  model sits in \<open>try ... except Exception\<close> with a fallback, so of what the collaborator
  raises only a \<open>RaisedBase\<close> comes from the model, and it leaves \<open>analyze\<close>.
\<close>

definition analyze :: "env \<Rightarrow> data \<Rightarrow> recommendation outcome" where
  "analyze e d =
     (case analyze_scores d of
        Inl err \<Rightarrow> Raised err
      | Inr scores \<Rightarrow>
          if (case map_of d ''stock_data'' of None \<Rightarrow> True | Some v \<Rightarrow> is_dict v)
          then synthesizer_llm e d scores
          else Raised attribute_error)"

text \<open>
  A call with keyword arguments binds each keyword to a parameter of that name. It
  raises TypeError for a keyword that names no parameter, and for a parameter without a
  default that receives no argument. The value carried is the text of the exception.
\<close>

definition bind_keywords ::
  "string \<Rightarrow> string list \<Rightarrow> (string \<times> data_value) list \<Rightarrow> string + (string \<times> data_value) list" where
  "bind_keywords fname params kwargs =
     (case filter (\<lambda>kv. fst kv \<notin> set params) kwargs of
        kv # rest \<Rightarrow>
          Inl (fname @ ''() got an unexpected keyword argument '' @ quoted (fst kv))
      | [] \<Rightarrow>
          (case filter (\<lambda>p. p \<notin> set (map fst kwargs)) params of
             [] \<Rightarrow> Inr kwargs
           | p # rest \<Rightarrow>
               Inl (fname @ ''() missing 1 required positional argument: '' @ quoted p)))"

text \<open>\<open>ComparisonSynthesizerAgent.compare(self, stock1_data, stock2_data)\<close>.\<close>

definition compare_params :: "string list" where
  "compare_params = [''stock1_data'', ''stock2_data'']"

definition compare :: "env \<Rightarrow> (string \<times> data_value) list \<Rightarrow> recommendation outcome" where
  "compare e kwargs =
     (case bind_keywords ''ComparisonSynthesizerAgent.compare'' compare_params kwargs of
        Inl err \<Rightarrow> Raised err
      | Inr args \<Rightarrow>
          (case comparison_llm e (data_get args ''stock1_data'' DNone)
                               (data_get args ''stock2_data'' DNone) of
             Raised err \<Rightarrow> Raised err
           | RaisedBase c \<Rightarrow> RaisedBase c
           | Returned txt \<Rightarrow> Returned [(''comparison_analysis'', txt)]))"

subsection \<open>Graph nodes\<close>

text \<open>
  Every node takes the state and returns it updated. A node body sits in
  \<open>try ... except Exception\<close>; the handler appends one tagged entry to \<open>errors\<close>. What a
  directly awaited collaborator raises outside \<open>Exception\<close> is not caught: it leaves the
  node, which then yields \<open>Inl\<close> with the name of the class. The nodes that only gather
  their collaborators always return.
\<close>

definition collect_price_data :: "env \<Rightarrow> graph_state \<Rightarrow> string + graph_state" where
  "collect_price_data e s =
     (case cache_get_price e (ticker s) of
        Raised err \<Rightarrow> Inr (add_error (''Price fetch error: '' @ err) s)
      | RaisedBase c \<Rightarrow> Inl c
      | Returned (Some cached) \<Rightarrow>
          Inr (add_progress ''Price data (cached)''
                 (s\<lparr>stock_data := Some \<lparr>stock_ticker = ticker s, price_data = Some cached\<rparr>\<rparr>))
      | Returned None \<Rightarrow>
          (case get_quick_price e (ticker s) of
             Raised err \<Rightarrow> Inr (add_error (''Price fetch error: '' @ err) s)
           | RaisedBase c \<Rightarrow> Inl c
           | Returned (Some p) \<Rightarrow>
               Inr (add_progress ''Price data fetched''
                      (s\<lparr>stock_data := Some \<lparr>stock_ticker = ticker s, price_data = Some p\<rparr>\<rparr>))
           | Returned None \<Rightarrow> Inr (add_error (''Could not fetch price for '' @ ticker s) s)))"

definition collect_stock_data :: "env \<Rightarrow> graph_state \<Rightarrow> string + graph_state" where
  "collect_stock_data e s =
     (case get_stock_data e (ticker s) 365 of
        Raised err \<Rightarrow> Inr (add_error (''Data collection error: '' @ err) s)
      | RaisedBase c \<Rightarrow> Inl c
      | Returned (Some sd) \<Rightarrow>
          Inr (add_progress ''Stock data collected'' (s\<lparr>stock_data := Some sd\<rparr>))
      | Returned None \<Rightarrow> Inr (add_error (''Could not fetch data for '' @ ticker s) s))"

text \<open>
  \<open>_collect_all_data\<close> gathers three calls with \<open>return_exceptions=True\<close>, which yields one
  result per call, an exception being a result like any other, and then handles the
  three results in turn. A result that is an exception but not an instance of
  \<open>Exception\<close> passes the \<open>isinstance\<close> test and is true: for the stock data and the
  market data \<open>model_dump\<close> is then called on it, which raises AttributeError before
  anything is stored; the news data is stored as it is.
\<close>

definition process_stock_data :: "stock option outcome \<Rightarrow> graph_state \<Rightarrow> attempt" where
  "process_stock_data r s =
     (case r of
        Raised err \<Rightarrow> (add_error (''Stock data error: '' @ err) s, None)
      | RaisedBase c \<Rightarrow> (s, Some (no_attribute c ''model_dump''))
      | Returned None \<Rightarrow> (s, None)
      | Returned (Some sd) \<Rightarrow>
          (let s1 = s\<lparr>stock_data := Some sd\<rparr>;
               hist_count = (case price_data sd of None \<Rightarrow> 0
                             | Some p \<Rightarrow> length (historical_ohlcv p))
           in if hist_count > 0 then
                (add_progress (''Stock data collected ('' @ str_nat hist_count
                               @ '' days historical)'') s1, None)
              else
                (add_error ''Warning: No historical data available for technical analysis''
                   (add_progress ''Stock data collected (no historical)'' s1), None)))"

definition process_news_data :: "news option outcome \<Rightarrow> graph_state \<Rightarrow> attempt" where
  "process_news_data r s =
     (case r of
        Raised err \<Rightarrow> (add_error (''News data error: '' @ err) s, None)
      | RaisedBase c \<Rightarrow>
          (add_progress ''News data collected'' (s\<lparr>news_data := Some (Object c)\<rparr>), None)
      | Returned None \<Rightarrow> (s, None)
      | Returned (Some n) \<Rightarrow>
          (add_progress ''News data collected'' (s\<lparr>news_data := Some (Dict n)\<rparr>), None))"

definition process_market_data :: "market option outcome \<Rightarrow> graph_state \<Rightarrow> attempt" where
  "process_market_data r s =
     (case r of
        Raised err \<Rightarrow> (add_error (''Market data error: '' @ err) s, None)
      | RaisedBase c \<Rightarrow> (s, Some (no_attribute c ''model_dump''))
      | Returned None \<Rightarrow> (s, None)
      | Returned (Some m) \<Rightarrow>
          (add_progress ''Market data collected'' (s\<lparr>market_data := Some m\<rparr>), None))"

definition collect_all_data :: "env \<Rightarrow> graph_state \<Rightarrow> graph_state" where
  "collect_all_data e s =
     (let stock_result = get_stock_data e (ticker s) 180;
          news_result = get_news e (ticker s);
          market_result = get_market_data e
      in handled ''Data collection error: ''
           (then_do (then_do (process_stock_data stock_result s)
                       (process_news_data news_result))
              (process_market_data market_result)))"

text \<open>
  \<open>_collect_comparison_data\<close>: a gathered result is stored when it is true and not an
  instance of \<open>Exception\<close>; \<open>str(x)\<close> of a result that is not usable is the exception text,
  or \<open>None\<close>.
\<close>

definition store_fetched ::
  "string \<Rightarrow> stock option outcome \<Rightarrow> (stock \<Rightarrow> graph_state \<Rightarrow> graph_state) \<Rightarrow> graph_state
   \<Rightarrow> attempt" where
  "store_fetched tk r store s =
     (case r of
        Raised err \<Rightarrow> (add_error (''Error fetching '' @ tk @ '': '' @ err) s, None)
      | RaisedBase c \<Rightarrow> (s, Some (no_attribute c ''model_dump''))
      | Returned None \<Rightarrow> (add_error (''Error fetching '' @ tk @ '': None'') s, None)
      | Returned (Some sd) \<Rightarrow> (add_progress (tk @ '' data collected'') (store sd s), None))"

definition collect_comparison_data :: "env \<Rightarrow> graph_state \<Rightarrow> graph_state" where
  "collect_comparison_data e s =
     (case ticker_2 s of
        None \<Rightarrow> add_error ''Second ticker required for comparison'' s
      | Some ticker2 \<Rightarrow>
          if ticker2 = [] then add_error ''Second ticker required for comparison'' s
          else
            (let stock1 = get_stock_data e (ticker s) 365;
                 stock2 = get_stock_data e ticker2 365
             in handled ''Comparison data error: ''
                  (then_do (store_fetched (ticker s) stock1 (\<lambda>sd st. st\<lparr>stock_data := Some sd\<rparr>) s)
                     (store_fetched ticker2 stock2 (\<lambda>sd st. st\<lparr>stock_data_2 := Some sd\<rparr>)))))"

text \<open>
  \<open>if result:\<close> on a dictionary is false for the empty dictionary only.
\<close>

definition single_agent_result ::
  "string \<Rightarrow> analysis outcome \<Rightarrow> (analysis \<Rightarrow> graph_state \<Rightarrow> graph_state) \<Rightarrow> graph_state
   \<Rightarrow> string + graph_state" where
  "single_agent_result label r store s =
     (case r of
        Raised err \<Rightarrow> Inr (add_error (''Analysis error: '' @ err) s)
      | RaisedBase c \<Rightarrow> Inl c
      | Returned a \<Rightarrow>
          if a \<noteq> empty_dict then
            Inr (add_progress (label @ '': '' @ score_text (score a)) (store a s))
          else Inr (add_error (label @ '' analysis failed'') s))"

definition run_single_agent :: "env \<Rightarrow> graph_state \<Rightarrow> string + graph_state" where
  "run_single_agent e s =
     (case stock_data s of
        None \<Rightarrow> Inr (add_error ''No stock data available'' s)
      | Some sd \<Rightarrow>
          if intent s = TECHNICAL_ANALYSIS then
            single_agent_result ''Technical'' (technical_agent e sd (ticker s))
              (\<lambda>a st. st\<lparr>technical_analysis := Some (Dict a)\<rparr>) s
          else if intent s = FUNDAMENTAL_ANALYSIS then
            single_agent_result ''Fundamental'' (fundamental_agent e sd (ticker s))
              (\<lambda>a st. st\<lparr>fundamental_analysis := Some (Dict a)\<rparr>) s
          else if intent s = SENTIMENT_ANALYSIS then
            single_agent_result ''Market Intel''
              (market_intel_agent e sd (news_data s) (market_data s) (ticker s))
              (\<lambda>a st. st\<lparr>market_intel_analysis := Some (Dict a)\<rparr>) s
          else Inr s)"

text \<open>
  \<open>_run_parallel_analysis\<close>: the three producers run under
  \<open>asyncio.gather(..., return_exceptions=True)\<close>, and the loop over \<open>enumerate(results)\<close>
  follows. An instance of \<open>Exception\<close> becomes an entry of \<open>errors\<close> tagged with the name of
  the producer. Any other result takes the \<open>else\<close> branch: it is stored in the slot of
  its index and \<open>.get\<close> is read from it, which raises AttributeError when it is not a
  dictionary; the loop ends there and the handler of the node records the error.
\<close>

definition agent_names :: "string list" where
  "agent_names = [''Fundamental'', ''Technical'', ''Market Intel'']"

definition store_parallel :: "nat \<Rightarrow> analysis stored \<Rightarrow> graph_state \<Rightarrow> graph_state" where
  "store_parallel i v s =
     (if i = 0 then s\<lparr>fundamental_analysis := Some v\<rparr>
      else if i = 1 then s\<lparr>technical_analysis := Some v\<rparr>
      else s\<lparr>market_intel_analysis := Some v\<rparr>)"

definition parallel_label :: "nat \<Rightarrow> string" where
  "parallel_label i =
     (if i = 0 then ''Fundamental: '' else if i = 1 then ''Technical: '' else ''Market Intel: '')"

definition handle_parallel_result :: "graph_state \<Rightarrow> nat \<Rightarrow> analysis outcome \<Rightarrow> attempt" where
  "handle_parallel_result s i r =
     (case r of
        Raised err \<Rightarrow> (add_error (agent_names ! i @ '' agent error: '' @ err) s, None)
      | RaisedBase c \<Rightarrow> (store_parallel i (Object c) s, Some (no_attribute c ''get''))
      | Returned a \<Rightarrow>
          (add_progress (parallel_label i @ score_text (score a)) (store_parallel i (Dict a) s),
           None))"

fun parallel_results_loop :: "graph_state \<Rightarrow> (nat \<times> analysis outcome) list \<Rightarrow> attempt" where
  "parallel_results_loop s [] = (s, None)"
| "parallel_results_loop s ((i, r) # rest) =
     then_do (handle_parallel_result s i r) (\<lambda>s1. parallel_results_loop s1 rest)"

definition run_parallel_analysis :: "env \<Rightarrow> graph_state \<Rightarrow> graph_state" where
  "run_parallel_analysis e s =
     (case stock_data s of
        None \<Rightarrow> add_error ''No stock data for analysis'' s
      | Some sd \<Rightarrow>
          (let results = [fundamental_agent e sd (ticker s),
                          technical_agent e sd (ticker s),
                          market_intel_agent e sd (news_data s) (market_data s) (ticker s)]
           in handled ''Parallel analysis error: ''
                (parallel_results_loop s (zip [0..<length results] results))))"

text \<open>
  \<open>_run_parallel_comparison_analysis\<close>: four gathered results, each stored unless it is an
  instance of \<open>Exception\<close>, with \<open>.get\<close> read from it afterwards.
\<close>

definition store_comparison_result ::
  "string \<Rightarrow> analysis outcome \<Rightarrow> (analysis stored \<Rightarrow> graph_state \<Rightarrow> graph_state) \<Rightarrow> graph_state
   \<Rightarrow> attempt" where
  "store_comparison_result label r store s =
     (case r of
        Raised err \<Rightarrow> (s, None)
      | RaisedBase c \<Rightarrow> (store (Object c) s, Some (no_attribute c ''get''))
      | Returned a \<Rightarrow>
          (add_progress (label @ '': '' @ score_text (score a)) (store (Dict a) s), None))"

definition run_parallel_comparison_analysis :: "env \<Rightarrow> graph_state \<Rightarrow> graph_state" where
  "run_parallel_comparison_analysis e s =
     (case (stock_data s, stock_data_2 s) of
        (Some sd1, Some sd2) \<Rightarrow>
          (let t2 = get_or (ticker_2 s) ''None'';
               r0 = fundamental_agent e sd1 (ticker s);
               r1 = technical_agent e sd1 (ticker s);
               r2 = fundamental_agent e sd2 (get_or (ticker_2 s) []);
               r3 = technical_agent e sd2 (get_or (ticker_2 s) [])
           in handled ''Comparison analysis error: ''
                (then_do (then_do (then_do
                   (store_comparison_result (ticker s @ '' Fundamental'') r0
                      (\<lambda>v st. st\<lparr>fundamental_analysis := Some v\<rparr>) s)
                   (store_comparison_result (ticker s @ '' Technical'') r1
                      (\<lambda>v st. st\<lparr>technical_analysis := Some v\<rparr>)))
                   (store_comparison_result (t2 @ '' Fundamental'') r2
                      (\<lambda>v st. st\<lparr>fundamental_analysis_2 := Some v\<rparr>)))
                   (store_comparison_result (t2 @ '' Technical'') r3
                      (\<lambda>v st. st\<lparr>technical_analysis_2 := Some v\<rparr>))))
      | _ \<Rightarrow> add_error ''Missing stock data for comparison'' s)"

definition run_risk_analysis :: "env \<Rightarrow> graph_state \<Rightarrow> string + graph_state" where
  "run_risk_analysis e s =
     (case stock_data s of
        None \<Rightarrow> Inr (add_error ''No stock data for risk analysis'' s)
      | Some sd \<Rightarrow>
          (case risk_agent e sd (fundamental_analysis s) (technical_analysis s) (ticker s) of
             Raised err \<Rightarrow> Inr (add_error (''Risk analysis error: '' @ err) s)
           | RaisedBase c \<Rightarrow> Inl c
           | Returned a \<Rightarrow>
               Inr (add_progress (''Risk: '' @ score_text (risk_score a))
                      (s\<lparr>risk_analysis := Some (Dict a)\<rparr>))))"

definition stock_value :: "stock option \<Rightarrow> data_value" where
  "stock_value v = (case v of None \<Rightarrow> DNone | Some x \<Rightarrow> DStock x)"

definition analysis_value :: "analysis stored option \<Rightarrow> data_value" where
  "analysis_value v =
     (case v of None \<Rightarrow> DNone | Some (Dict a) \<Rightarrow> DAnalysis a | Some (Object c) \<Rightarrow> DObject c)"

definition string_value :: "string option \<Rightarrow> data_value" where
  "string_value v = (case v of None \<Rightarrow> DNone | Some x \<Rightarrow> DStr x)"

text \<open>The dictionary that \<open>_run_synthesis\<close> hands to \<open>analyze\<close>.\<close>

definition synthesis_data :: "graph_state \<Rightarrow> data" where
  "synthesis_data s =
     [(''stock_data'', stock_value (stock_data s)),
      (''fundamental'', analysis_value (fundamental_analysis s)),
      (''technical'', analysis_value (technical_analysis s)),
      (''market_intel'', analysis_value (market_intel_analysis s)),
      (''risk'', analysis_value (risk_analysis s))]"

definition run_synthesis :: "env \<Rightarrow> graph_state \<Rightarrow> string + graph_state" where
  "run_synthesis e s =
     (case analyze e (synthesis_data s) of
        Raised err \<Rightarrow> Inr (add_error (''Synthesis error: '' @ err) s)
      | RaisedBase c \<Rightarrow> Inl c
      | Returned r \<Rightarrow>
          Inr (add_progress ''Recommendation generated''
                 (s\<lparr>synthesized_recommendation := Some r\<rparr>)))"

text \<open>The keyword arguments that \<open>_run_comparison_synthesis\<close> passes to \<open>compare\<close>.\<close>

definition comparison_kwargs :: "graph_state \<Rightarrow> (string \<times> data_value) list" where
  "comparison_kwargs s =
     [(''ticker1'', DStr (ticker s)),
      (''ticker2'', string_value (ticker_2 s)),
      (''stock_data_1'', stock_value (stock_data s)),
      (''stock_data_2'', stock_value (stock_data_2 s)),
      (''fundamental_1'', analysis_value (fundamental_analysis s)),
      (''fundamental_2'', analysis_value (fundamental_analysis_2 s)),
      (''technical_1'', analysis_value (technical_analysis s)),
      (''technical_2'', analysis_value (technical_analysis_2 s))]"

definition run_comparison_synthesis :: "env \<Rightarrow> graph_state \<Rightarrow> string + graph_state" where
  "run_comparison_synthesis e s =
     (case compare e (comparison_kwargs s) of
        Raised err \<Rightarrow> Inr (add_error (''Comparison error: '' @ err) s)
      | RaisedBase c \<Rightarrow> Inl c
      | Returned r \<Rightarrow>
          Inr (add_progress ''Comparison complete''
                 (s\<lparr>synthesized_recommendation := Some r\<rparr>)))"

subsection \<open>The five graphs and \<open>run\<close>\<close>

text \<open>
  Each compiled graph is a chain: the entry point, then one edge from each node to the
  next, the last one to \<open>END\<close>. Invoking it applies the nodes in that order, and ends at
  the first node that something leaves without being caught.
\<close>

type_synonym node = "env \<Rightarrow> graph_state \<Rightarrow> string + graph_state"

type_synonym graph = "node list"

definition returning :: "(env \<Rightarrow> graph_state \<Rightarrow> graph_state) \<Rightarrow> node" where
  "returning f = (\<lambda>e s. Inr (f e s))"

definition price_graph :: graph where
  "price_graph = [collect_price_data]"

definition single_aspect_graph :: graph where
  "single_aspect_graph = [collect_stock_data, run_single_agent]"

definition full_analysis_graph :: graph where
  "full_analysis_graph =
     [returning collect_all_data, returning run_parallel_analysis, run_risk_analysis,
      run_synthesis]"

definition comparison_graph :: graph where
  "comparison_graph =
     [returning collect_comparison_data, returning run_parallel_comparison_analysis,
      run_comparison_synthesis]"

definition deep_dive_graph :: graph where
  "deep_dive_graph = full_analysis_graph"

fun ainvoke :: "env \<Rightarrow> graph \<Rightarrow> graph_state \<Rightarrow> string + graph_state" where
  "ainvoke e [] s = Inr s"
| "ainvoke e (n # ns) s = (case n e s of Inl c \<Rightarrow> Inl c | Inr s1 \<Rightarrow> ainvoke e ns s1)"

definition intent_value :: "intent_type \<Rightarrow> string" where
  "intent_value t =
     (case t of
        PRICE_CHECK \<Rightarrow> ''price_check''
      | TECHNICAL_ANALYSIS \<Rightarrow> ''technical_analysis''
      | FUNDAMENTAL_ANALYSIS \<Rightarrow> ''fundamental_analysis''
      | SENTIMENT_ANALYSIS \<Rightarrow> ''sentiment_analysis''
      | FULL_ANALYSIS \<Rightarrow> ''full_analysis''
      | COMPARISON \<Rightarrow> ''comparison''
      | DEEP_DIVE \<Rightarrow> ''deep_dive''
      | HELP \<Rightarrow> ''help''
      | UNKNOWN \<Rightarrow> ''unknown'')"

definition initial_state :: "intent \<Rightarrow> string option \<Rightarrow> graph_state" where
  "initial_state i uid =
     \<lparr>ticker = (case tickers i of [] \<Rightarrow> [] | t # rest \<Rightarrow> t),
      ticker_2 = (if length (tickers i) > 1 then Some (tickers i ! 1) else None),
      intent = intent_type i,
      user_id = uid,
      stock_data = None, stock_data_2 = None, news_data = None, market_data = None,
      fundamental_analysis = None, fundamental_analysis_2 = None,
      technical_analysis = None, technical_analysis_2 = None,
      market_intel_analysis = None, risk_analysis = None,
      synthesized_recommendation = None,
      errors = [], progress = [],
      execution_path = intent_value (intent_type i)\<rparr>"

definition graph_map :: "intent_type \<Rightarrow> graph" where
  "graph_map t =
     (case t of
        PRICE_CHECK \<Rightarrow> price_graph
      | TECHNICAL_ANALYSIS \<Rightarrow> single_aspect_graph
      | FUNDAMENTAL_ANALYSIS \<Rightarrow> single_aspect_graph
      | SENTIMENT_ANALYSIS \<Rightarrow> single_aspect_graph
      | FULL_ANALYSIS \<Rightarrow> full_analysis_graph
      | COMPARISON \<Rightarrow> comparison_graph
      | DEEP_DIVE \<Rightarrow> deep_dive_graph
      | _ \<Rightarrow> full_analysis_graph)"

text \<open>
  \<open>run\<close>, called without a progress callback. Every node handles the instances of
  \<open>Exception\<close> itself, so the handler around the invocation of the graph is never
  entered; what leaves a node leaves \<open>run\<close> too.
\<close>

definition run :: "env \<Rightarrow> intent \<Rightarrow> string option \<Rightarrow> string + graph_state" where
  "run e i uid =
     (let s0 = initial_state i uid
      in if ticker s0 = [] then Inr (add_error ''No ticker provided'' s0)
         else
           (let s1 = (if intent_type i = SENTIMENT_ANALYSIS then collect_all_data e s0 else s0)
            in ainvoke e (graph_map (intent_type i)) s1))"

section \<open>Concrete inputs\<close>

text \<open>
  An environment in which every data source and every producer succeeds with a
  non-empty result, a variant in which the technical producer raises an instance of
  \<open>Exception\<close>, a variant in which the fundamental producer ends with
  \<open>asyncio.CancelledError\<close>, and two intents.
\<close>

definition sample_analysis :: analysis where
  "sample_analysis =
     \<lparr>score = Some 90, risk_score = Some 20, rating = Some ''STRONG_BUY'',
      signal = Some ''BEARISH'', overall_sentiment = Some ''POSITIVE'',
      other_keys = [''confidence'']\<rparr>"

definition sample_stock :: "string \<Rightarrow> stock" where
  "sample_stock t =
     \<lparr>stock_ticker = t,
      price_data = Some \<lparr>current_price = 100, historical_ohlcv = [98, 99, 100]\<rparr>\<rparr>"

definition all_succeed :: env where
  "all_succeed =
     \<lparr>cache_get_price = (\<lambda>t. Returned None),
      get_quick_price = (\<lambda>t. Returned (Some \<lparr>current_price = 100, historical_ohlcv = []\<rparr>)),
      get_stock_data = (\<lambda>t days. Returned (Some (sample_stock t))),
      get_news = (\<lambda>t. Returned (Some [''headline''])),
      get_market_data = Returned (Some [(''NIFTY'', 22000)]),
      fundamental_agent = (\<lambda>sd t. Returned sample_analysis),
      technical_agent = (\<lambda>sd t. Returned sample_analysis),
      market_intel_agent = (\<lambda>sd n m t. Returned sample_analysis),
      risk_agent = (\<lambda>sd f t tk. Returned sample_analysis),
      synthesizer_llm = (\<lambda>d ws. Returned [(''recommendation'', ''BUY'')]),
      comparison_llm = (\<lambda>a b. Returned ''TCS is preferred'')\<rparr>"



definition comparison_intent :: intent where
  "comparison_intent =
     \<lparr>intent_type = COMPARISON, tickers = [''TCS'', ''INFY''],
      raw_query = ''compare TCS and INFY'', confidence = 1, aspect = None\<rparr>"

definition full_analysis_intent :: intent where
  "full_analysis_intent =
     \<lparr>intent_type = FULL_ANALYSIS, tickers = [''TCS''],
      raw_query = ''analyse TCS'', confidence = 1, aspect = None\<rparr>"

section \<open>Facts about the string functions and the rounding\<close>



lemma round2_hundredths: "round2 (of_int k / 100) = of_int k / 100"
  by (simp add: round2_def Let_def)

lemma count_list_pos_iff: "0 < count_list xs x \<longleftrightarrow> x \<in> set xs"
  by (induction xs) auto

lemma detect_conflicts_length: "length (detect_conflicts sigs) \<le> 1"
  by (simp add: detect_conflicts_def Let_def)

lemma detect_conflicts_empty_iff:
  "detect_conflicts sigs = [] \<longleftrightarrow> \<not> (''BULLISH'' \<in> set sigs \<and> ''BEARISH'' \<in> set sigs)"
  by (simp add: detect_conflicts_def Let_def count_list_pos_iff)

lemma adjust_detect:
  "adjust_for_conflicts (detect_conflicts sigs) =
     (if ''BULLISH'' \<in> set sigs \<and> ''BEARISH'' \<in> set sigs then 0 else 10)"
  by (simp add: adjust_for_conflicts_def detect_conflicts_def Let_def count_list_pos_iff)

lemma select_weights_cases:
  "select_weights h = \<lparr>fundamental = 50 / 100, technical = 20 / 100, market_intel = 20 / 100, risk = 10 / 100\<rparr>
   \<or> select_weights h = \<lparr>fundamental = 15 / 100, technical = 50 / 100, market_intel = 25 / 100, risk = 10 / 100\<rparr>
   \<or> select_weights h = \<lparr>fundamental = 30 / 100, technical = 40 / 100, market_intel = 20 / 100, risk = 10 / 100\<rparr>"
  by (simp add: select_weights_def)

text \<open>
  With integer scores, one hundred times the weighted sum is an integer for each of the
  three weight sets, so rounding to two decimal places changes nothing.
\<close>

lemma weighted_sum_hundredths:
  "\<exists>k. of_int a * fundamental (select_weights h) + of_int b * technical (select_weights h)
        + of_int c * market_intel (select_weights h) + of_int d * risk (select_weights h)
        = (of_int k :: rat) / 100"
proof -
  consider
    (long) "select_weights h = \<lparr>fundamental = 50 / 100, technical = 20 / 100, market_intel = 20 / 100, risk = 10 / 100\<rparr>"
  | (short) "select_weights h = \<lparr>fundamental = 15 / 100, technical = 50 / 100, market_intel = 25 / 100, risk = 10 / 100\<rparr>"
  | (swing) "select_weights h = \<lparr>fundamental = 30 / 100, technical = 40 / 100, market_intel = 20 / 100, risk = 10 / 100\<rparr>"
    using select_weights_cases by blast
  then show ?thesis
  proof cases
    case long
    have "of_int a * (50 / 100) + of_int b * (20 / 100) + of_int c * (20 / 100) + of_int d * (10 / 100)
          = (of_int (50 * a + 20 * b + 20 * c + 10 * d) :: rat) / 100"
      by (simp add: field_simps)
    with long show ?thesis by (metis weights.select_convs)
  next
    case short
    have "of_int a * (15 / 100) + of_int b * (50 / 100) + of_int c * (25 / 100) + of_int d * (10 / 100)
          = (of_int (15 * a + 50 * b + 25 * c + 10 * d) :: rat) / 100"
      by (simp add: field_simps)
    with short show ?thesis by (metis weights.select_convs)
  next
    case swing
    have "of_int a * (30 / 100) + of_int b * (40 / 100) + of_int c * (20 / 100) + of_int d * (10 / 100)
          = (of_int (30 * a + 40 * b + 20 * c + 10 * d) :: rat) / 100"
      by (simp add: field_simps)
    with swing show ?thesis by (metis weights.select_convs)
  qed
qed

lemma round2_hundredths_plus:
  "round2 (of_int k / 100 + of_int n) = of_int k / 100 + of_int n"
proof -
  have "(of_int k :: rat) / 100 + of_int n = of_int (k + 100 * n) / 100"
    by (simp add: field_simps)
  then show ?thesis using round2_hundredths by metis
qed

subsection \<open>The rounding to a double\<close>

lemma pow2_pos: "0 < pow2 k"
  by (simp add: pow2_def)

lemma pow2_Suc: "pow2 (k + 1) = 2 * pow2 k"
proof (cases "0 \<le> k")
  case True
  then show ?thesis by (simp add: pow2_def nat_add_distrib)
next
  case False
  then have k: "k < 0" by simp
  show ?thesis
  proof (cases "k = - 1")
    case True
    then show ?thesis by (simp add: pow2_def)
  next
    case False
    with k have k2: "k + 1 < 0" by simp
    have "nat (- k) = Suc (nat (- (k + 1)))" using k by simp
    then show ?thesis using k k2 by (simp add: pow2_def)
  qed
qed

lemma binade_bounds:
  assumes "0 < a"
  shows "pow2 (binade a) \<le> a \<and> a < pow2 (binade a + 1)"
proof (cases "1 \<le> a")
  case True
  then have f: "0 < \<lfloor>a\<rfloor>" by linarith
  from bitlen_bounds [OF f]
  have lo: "2 ^ nat (bitlen \<lfloor>a\<rfloor> - 1) \<le> \<lfloor>a\<rfloor>" and hi: "\<lfloor>a\<rfloor> < 2 ^ nat (bitlen \<lfloor>a\<rfloor>)"
    by auto
  have b1: "1 \<le> bitlen \<lfloor>a\<rfloor>" using f by (simp add: bitlen_alt_def)
  have "(2::rat) ^ nat (bitlen \<lfloor>a\<rfloor> - 1) \<le> of_int \<lfloor>a\<rfloor>"
    using lo by (metis of_int_le_iff of_int_numeral of_int_power)
  moreover have "of_int \<lfloor>a\<rfloor> \<le> a" by simp
  ultimately have l: "(2::rat) ^ nat (bitlen \<lfloor>a\<rfloor> - 1) \<le> a" by linarith
  have "\<lfloor>a\<rfloor> + 1 \<le> 2 ^ nat (bitlen \<lfloor>a\<rfloor>)" using hi by simp
  then have "(of_int (\<lfloor>a\<rfloor> + 1) :: rat) \<le> 2 ^ nat (bitlen \<lfloor>a\<rfloor>)"
    by (metis of_int_le_iff of_int_numeral of_int_power)
  moreover have "a < of_int (\<lfloor>a\<rfloor> + 1)" by linarith
  ultimately have h: "a < (2::rat) ^ nat (bitlen \<lfloor>a\<rfloor>)" by linarith
  show ?thesis using True l h b1 by (simp add: binade_def pow2_def)
next
  case False
  then have a1: "a < 1" by simp
  define n where "n = \<lceil>1 / a\<rceil>"
  have inv: "1 < 1 / a" using assms a1 by simp
  then have n2: "2 \<le> n" unfolding n_def by linarith
  then have n1: "0 < n - 1" by simp
  from bitlen_bounds [OF n1]
  have lo: "2 ^ nat (bitlen (n - 1) - 1) \<le> n - 1" and hi: "n - 1 < 2 ^ nat (bitlen (n - 1))"
    by auto
  have b1: "1 \<le> bitlen (n - 1)" using n1 by (simp add: bitlen_alt_def)
  have "n \<le> 2 ^ nat (bitlen (n - 1))" using hi by simp
  then have "(of_int n :: rat) \<le> 2 ^ nat (bitlen (n - 1))"
    by (metis of_int_le_iff of_int_numeral of_int_power)
  moreover have "1 / a \<le> of_int n" unfolding n_def by simp
  ultimately have "1 / a \<le> (2::rat) ^ nat (bitlen (n - 1))" by linarith
  then have l: "1 / 2 ^ nat (bitlen (n - 1)) \<le> a"
    using assms by (simp add: field_simps)
  have "(2::rat) ^ nat (bitlen (n - 1) - 1) \<le> of_int (n - 1)"
    using lo by (metis of_int_le_iff of_int_numeral of_int_power)
  moreover have "(of_int (n - 1) :: rat) < 1 / a" unfolding n_def by linarith
  ultimately have "(2::rat) ^ nat (bitlen (n - 1) - 1) < 1 / a" by linarith
  then have h: "a < 1 / 2 ^ nat (bitlen (n - 1) - 1)"
    using assms by (simp add: field_simps)
  have e: "binade a = - bitlen (n - 1)" using False by (simp add: binade_def n_def)
  have p1: "pow2 (- bitlen (n - 1)) = 1 / 2 ^ nat (bitlen (n - 1))"
    using b1 by (simp add: pow2_def)
  have p2: "pow2 (- bitlen (n - 1) + 1) = 1 / 2 ^ nat (bitlen (n - 1) - 1)"
  proof (cases "bitlen (n - 1) = 1")
    case True
    then show ?thesis by (simp add: pow2_def)
  next
    case False
    with b1 have "- bitlen (n - 1) + 1 < 0" by simp
    moreover have "nat (- (- bitlen (n - 1) + 1)) = nat (bitlen (n - 1) - 1)" by simp
    ultimately show ?thesis by (simp add: pow2_def)
  qed
  show ?thesis unfolding e p1 p2 using l h by simp
qed


lemma pow2_powi: "pow2 k = 2 powi k"
  by (simp add: pow2_def power_int_def power_one_over inverse_eq_divide)

lemma pow2_add: "pow2 (j + k) = pow2 j * pow2 k"
  by (simp add: pow2_powi power_int_add)

lemma round_half_even_near: "\<bar>of_int (round_half_even y) - y\<bar> \<le> 1 / 2"
proof -
  have f: "of_int \<lfloor>y\<rfloor> \<le> y" "y < of_int \<lfloor>y\<rfloor> + 1" by linarith+
  show ?thesis
    using f by (auto simp add: round_half_even_def Let_def)
qed

text \<open>
  \<open>to_double x\<close> is a multiple of \<open>2 ^ (e - 52)\<close> at most half of that unit away from
  \<open>x\<close>, where \<open>e\<close> is the binade of \<open>x\<close>.
\<close>

lemma to_double_near:
  assumes "x \<noteq> 0"
  shows "\<bar>to_double x - x\<bar> \<le> pow2 (binade \<bar>x\<bar> - 52) / 2"
proof -
  define e where "e = binade \<bar>x\<bar>"
  define m where "m = round_half_even (\<bar>x\<bar> * pow2 (52 - e))"
  have u: "pow2 (52 - e) * pow2 (e - 52) = 1"
    using pow2_add [of "52 - e" "e - 52"] by (simp add: pow2_def)
  have td: "to_double x = sgn x * of_int m * pow2 (e - 52)"
    using assms by (simp add: to_double_def Let_def e_def m_def)
  have "x = sgn x * (\<bar>x\<bar> * pow2 (52 - e)) * pow2 (e - 52)"
    using u by (simp add: mult.assoc sgn_mult_abs)
  then have "to_double x - x = sgn x * (of_int m - \<bar>x\<bar> * pow2 (52 - e)) * pow2 (e - 52)"
    unfolding td by (simp add: algebra_simps)
  then have "\<bar>to_double x - x\<bar> = \<bar>of_int m - \<bar>x\<bar> * pow2 (52 - e)\<bar> * pow2 (e - 52)"
    using assms pow2_pos [of "e - 52"] by (simp add: abs_mult abs_sgn_eq)
  also have "\<dots> \<le> 1 / 2 * pow2 (e - 52)"
    using round_half_even_near [of "\<bar>x\<bar> * pow2 (52 - e)"] pow2_pos [of "e - 52"]
    unfolding m_def by (simp add: mult_right_mono)
  finally show ?thesis unfolding e_def by simp
qed

section \<open>Synthesizer: conflict adjustment, weights, weighted average, final score\<close>

lemma calculate_weighted_scores_adjustment:
  "confidence_adjustment (calculate_weighted_scores f t m r c) =
     adjust_for_conflicts (detect_conflicts
       [normalize_signal (get_or (rating f) ''HOLD''),
        normalize_signal (get_or (signal t) ''NEUTRAL''),
        normalize_signal (get_or (overall_sentiment m) ''NEUTRAL'')])"
  by (simp add: calculate_weighted_scores_def Let_def)

text \<open>
  C1, as the claim states it, fails: with one BULLISH and one BEARISH signal among the
  three, the confidence adjustment is 0, not -20.
\<close>

theorem confidence_adjustment_mixed_counterexample:
  "normalize_signal ''BUY'' = ''BULLISH'' \<and> normalize_signal ''BEARISH'' = ''BEARISH''
   \<and> normalize_signal ''NEUTRAL'' = ''NEUTRAL''
   \<and> confidence_adjustment
        (calculate_weighted_scores
           (empty_dict\<lparr>rating := Some ''BUY''\<rparr>)
           (empty_dict\<lparr>signal := Some ''BEARISH''\<rparr>)
           (empty_dict\<lparr>overall_sentiment := Some ''NEUTRAL''\<rparr>)
           empty_dict empty_context) = 0"
  by (simp add: calculate_weighted_scores_adjustment adjust_detect get_or_def empty_dict_def
      normalize_signal_def upper_def upper_char_def bullish_def bearish_def)

text \<open>
  C1, amended: for every three analyses, the confidence adjustment is 0 when the
  normalized signals hold at least one BULLISH and at least one BEARISH, and 10
  otherwise; the same holds of any list of signals handed to the conflict detection. No
  input produces -20.
\<close>

theorem confidence_adjustment_zero_or_ten:
  "confidence_adjustment (calculate_weighted_scores f t m r c) =
     (if ''BULLISH'' \<in> set [normalize_signal (get_or (rating f) ''HOLD''),
                             normalize_signal (get_or (signal t) ''NEUTRAL''),
                             normalize_signal (get_or (overall_sentiment m) ''NEUTRAL'')]
         \<and> ''BEARISH'' \<in> set [normalize_signal (get_or (rating f) ''HOLD''),
                               normalize_signal (get_or (signal t) ''NEUTRAL''),
                               normalize_signal (get_or (overall_sentiment m) ''NEUTRAL'')]
      then 0 else 10)
   \<and> adjust_for_conflicts (detect_conflicts sigs) =
       (if ''BULLISH'' \<in> set sigs \<and> ''BEARISH'' \<in> set sigs then 0 else 10)
   \<and> confidence_adjustment (calculate_weighted_scores f t m r c) \<noteq> - 20
   \<and> adjust_for_conflicts (detect_conflicts sigs) \<noteq> - 20"
  unfolding calculate_weighted_scores_adjustment adjust_detect by simp

theorem confidence_adjustment_zero_or_ten_witness:
  "adjust_for_conflicts (detect_conflicts [''BULLISH'', ''BEARISH'', ''NEUTRAL'']) = 0
   \<and> adjust_for_conflicts (detect_conflicts [''BULLISH'', ''NEUTRAL'', ''BULLISH'']) = 10
   \<and> confidence_adjustment
        (calculate_weighted_scores empty_dict empty_dict empty_dict empty_dict empty_context) = 10"
  using confidence_adjustment_zero_or_ten
          [of empty_dict empty_dict empty_dict empty_dict empty_context
              "[''BULLISH'', ''BEARISH'', ''NEUTRAL'']"]
        confidence_adjustment_zero_or_ten
          [of empty_dict empty_dict empty_dict empty_dict empty_context
              "[''BULLISH'', ''NEUTRAL'', ''BULLISH'']"]
  by (simp add: get_or_def empty_dict_def normalize_signal_def upper_def upper_char_def
      bullish_def bearish_def)









text \<open>
  C8: whichever of the four analyses carry a score, the weighted average is the sum of
  the four component scores times their weights, a missing score counting as 50 and the
  risk component entering as 100 minus the risk score. The function always returns.
\<close>

theorem weighted_average_is_weighted_sum:
  "weighted_average (calculate_weighted_scores f t m r c) =
     of_int (get_or (score f) 50)
       * fundamental (weights_used (calculate_weighted_scores f t m r c))
     + of_int (get_or (score t) 50)
       * technical (weights_used (calculate_weighted_scores f t m r c))
     + of_int (get_or (score m) 50)
       * market_intel (weights_used (calculate_weighted_scores f t m r c))
     + of_int (100 - get_or (risk_score r) 50)
       * risk (weights_used (calculate_weighted_scores f t m r c))"
proof -
  define h where "h = get_or (time_horizon c) ''medium''"
  obtain k where k:
    "of_int (get_or (score f) 50) * fundamental (select_weights h)
     + of_int (get_or (score t) 50) * technical (select_weights h)
     + of_int (get_or (score m) 50) * market_intel (select_weights h)
     + of_int (100 - get_or (risk_score r) 50) * risk (select_weights h)
     = (of_int k :: rat) / 100"
    using weighted_sum_hundredths by blast
  show ?thesis
    unfolding calculate_weighted_scores_def Let_def h_def [symmetric]
    by (simp only: weighted_scores.select_convs k round2_hundredths)
qed

theorem weighted_average_is_weighted_sum_witness:
  "weighted_average
     (calculate_weighted_scores (empty_dict\<lparr>score := Some 80\<rparr>) empty_dict
        (empty_dict\<lparr>score := Some 60\<rparr>) (empty_dict\<lparr>risk_score := Some 30\<rparr>) empty_context)
   = 80 * (30 / 100) + 50 * (40 / 100) + 60 * (20 / 100) + (100 - 30) * (10 / 100)"
proof -
  have w: "weights_used
             (calculate_weighted_scores (empty_dict\<lparr>score := Some 80\<rparr>) empty_dict
                (empty_dict\<lparr>score := Some 60\<rparr>) (empty_dict\<lparr>risk_score := Some 30\<rparr>)
                empty_context)
           = \<lparr>fundamental = 30 / 100, technical = 40 / 100, market_intel = 20 / 100, risk = 10 / 100\<rparr>"
    by (simp add: calculate_weighted_scores_def Let_def get_or_def empty_context_def
        select_weights_def lower_def lower_char_def)
  show ?thesis
    using weighted_average_is_weighted_sum
            [of "empty_dict\<lparr>score := Some 80\<rparr>" empty_dict "empty_dict\<lparr>score := Some 60\<rparr>"
                "empty_dict\<lparr>risk_score := Some 30\<rparr>" empty_context]
    unfolding w by (simp add: get_or_def empty_dict_def)
qed

text \<open>
  C9: the final score is the weighted average plus the confidence adjustment, with no
  clamping to the range from 0 to 100: with all three scores at 100 and a risk score of
  0 the final score is 110.
\<close>

theorem final_score_not_clamped:
  "final_score (calculate_weighted_scores f t m r c) =
     weighted_average (calculate_weighted_scores f t m r c)
     + of_int (confidence_adjustment (calculate_weighted_scores f t m r c))
   \<and> (\<exists>f' t' m' r' c'.
        score f' = Some 100 \<and> score t' = Some 100 \<and> score m' = Some 100 \<and> risk_score r' = Some 0
        \<and> final_score (calculate_weighted_scores f' t' m' r' c') = 110
        \<and> final_score (calculate_weighted_scores f' t' m' r' c') > 100)"
proof -
  define h where "h = get_or (time_horizon c) ''medium''"
  obtain k where k:
    "of_int (get_or (score f) 50) * fundamental (select_weights h)
     + of_int (get_or (score t) 50) * technical (select_weights h)
     + of_int (get_or (score m) 50) * market_intel (select_weights h)
     + of_int (100 - get_or (risk_score r) 50) * risk (select_weights h)
     = (of_int k :: rat) / 100"
    using weighted_sum_hundredths by blast
  have eq: "final_score (calculate_weighted_scores f t m r c) =
     weighted_average (calculate_weighted_scores f t m r c)
     + of_int (confidence_adjustment (calculate_weighted_scores f t m r c))"
    unfolding calculate_weighted_scores_def Let_def h_def [symmetric]
    by (simp only: weighted_scores.select_convs k round2_hundredths round2_hundredths_plus)
  have ex: "final_score
              (calculate_weighted_scores (empty_dict\<lparr>score := Some 100\<rparr>)
                 (empty_dict\<lparr>score := Some 100\<rparr>) (empty_dict\<lparr>score := Some 100\<rparr>)
                 (empty_dict\<lparr>risk_score := Some 0\<rparr>) empty_context) = 110"
    by (simp add: calculate_weighted_scores_def Let_def get_or_def empty_context_def
        empty_dict_def select_weights_def lower_def lower_char_def normalize_signal_def
        upper_def upper_char_def bullish_def bearish_def detect_conflicts_def
        adjust_for_conflicts_def round2_def)
  have "\<exists>f' t' m' r' c'.
        score f' = Some 100 \<and> score t' = Some 100 \<and> score m' = Some 100 \<and> risk_score r' = Some 0
        \<and> final_score (calculate_weighted_scores f' t' m' r' c') = 110
        \<and> final_score (calculate_weighted_scores f' t' m' r' c') > 100"
    apply (rule exI [of _ "empty_dict\<lparr>score := Some 100\<rparr>"])
    apply (rule exI [of _ "empty_dict\<lparr>score := Some 100\<rparr>"])
    apply (rule exI [of _ "empty_dict\<lparr>score := Some 100\<rparr>"])
    apply (rule exI [of _ "empty_dict\<lparr>risk_score := Some 0\<rparr>"])
    apply (rule exI [of _ empty_context])
    using ex by simp
  with eq show ?thesis by blast
qed

theorem final_score_not_clamped_witness:
  "final_score
     (calculate_weighted_scores (empty_dict\<lparr>score := Some 100\<rparr>)
        (empty_dict\<lparr>score := Some 100\<rparr>) (empty_dict\<lparr>score := Some 100\<rparr>)
        (empty_dict\<lparr>risk_score := Some 0\<rparr>) empty_context)
   = 100 + 10"
proof -
  have wa: "weighted_average
              (calculate_weighted_scores (empty_dict\<lparr>score := Some 100\<rparr>)
                 (empty_dict\<lparr>score := Some 100\<rparr>) (empty_dict\<lparr>score := Some 100\<rparr>)
                 (empty_dict\<lparr>risk_score := Some 0\<rparr>) empty_context) = 100"
    by (simp add: calculate_weighted_scores_def Let_def get_or_def empty_context_def
        empty_dict_def select_weights_def lower_def lower_char_def round2_def)
  have ca: "confidence_adjustment
              (calculate_weighted_scores (empty_dict\<lparr>score := Some 100\<rparr>)
                 (empty_dict\<lparr>score := Some 100\<rparr>) (empty_dict\<lparr>score := Some 100\<rparr>)
                 (empty_dict\<lparr>risk_score := Some 0\<rparr>) empty_context) = 10"
    by (simp add: calculate_weighted_scores_adjustment adjust_detect get_or_def empty_dict_def
        normalize_signal_def upper_def upper_char_def bullish_def bearish_def)
  show ?thesis
    using final_score_not_clamped
            [of "empty_dict\<lparr>score := Some 100\<rparr>" "empty_dict\<lparr>score := Some 100\<rparr>"
                "empty_dict\<lparr>score := Some 100\<rparr>" "empty_dict\<lparr>risk_score := Some 0\<rparr>"
                empty_context]
    unfolding wa ca by simp
qed

section \<open>Intent validation\<close>

text \<open>
  C4, as the claim states it, fails: a COMPARISON intent whose two tickers are the same
  is accepted.
\<close>

theorem validate_intent_same_ticker_counterexample:
  "validate_intent
     \<lparr>intent_type = COMPARISON, tickers = [''TCS'', ''TCS''],
      raw_query = ''compare TCS and TCS'', confidence = 1, aspect = None\<rparr> = (True, None)"
  by (simp add: validate_intent_def)

text \<open>
  C4, amended: \<open>validate_intent\<close> is a function of the intent alone. It accepts a
  COMPARISON intent exactly when it carries at least two tickers; every other intent type
  apart from HELP is rejected when it carries no ticker; an UNKNOWN intent is always
  rejected.
\<close>

theorem validate_intent_checks:
  "(intent_type i = COMPARISON \<longrightarrow> (fst (validate_intent i) \<longleftrightarrow> 2 \<le> length (tickers i)))
   \<and> (intent_type i \<noteq> HELP \<and> tickers i = [] \<longrightarrow> \<not> fst (validate_intent i))
   \<and> (intent_type i = UNKNOWN \<longrightarrow> \<not> fst (validate_intent i))"
  by (cases "tickers i") (auto simp add: validate_intent_def Suc_le_eq)

theorem validate_intent_checks_witness:
  "fst (validate_intent
          \<lparr>intent_type = COMPARISON, tickers = [''TCS'', ''INFY''],
           raw_query = ''compare TCS and INFY'', confidence = 1, aspect = None\<rparr>)
   \<and> \<not> fst (validate_intent
              \<lparr>intent_type = COMPARISON, tickers = [''TCS''],
               raw_query = ''compare TCS'', confidence = 1, aspect = None\<rparr>)
   \<and> \<not> fst (validate_intent
              \<lparr>intent_type = FULL_ANALYSIS, tickers = [],
               raw_query = ''analyse'', confidence = 1, aspect = None\<rparr>)
   \<and> \<not> fst (validate_intent
              \<lparr>intent_type = UNKNOWN, tickers = [''TCS''],
               raw_query = ''hello'', confidence = 1, aspect = None\<rparr>)"
  using validate_intent_checks
          [of "\<lparr>intent_type = COMPARISON, tickers = [''TCS'', ''INFY''],
                raw_query = ''compare TCS and INFY'', confidence = 1, aspect = None\<rparr>"]
        validate_intent_checks
          [of "\<lparr>intent_type = COMPARISON, tickers = [''TCS''],
                raw_query = ''compare TCS'', confidence = 1, aspect = None\<rparr>"]
        validate_intent_checks
          [of "\<lparr>intent_type = FULL_ANALYSIS, tickers = [],
                raw_query = ''analyse'', confidence = 1, aspect = None\<rparr>"]
        validate_intent_checks
          [of "\<lparr>intent_type = UNKNOWN, tickers = [''TCS''],
                raw_query = ''hello'', confidence = 1, aspect = None\<rparr>"]
  by simp

section \<open>Decision engine: the first two rules\<close>

text \<open>
  C5: for every holding whose stop loss is set (and not zero, so that the distance is
  defined) and whose current price is at most 2 percent above the stop loss, the decision
  is STOP_LOSS_HIT with priority URGENT, whatever the profit and loss percentage, the
  target price and the two scores are.
\<close>

theorem stop_loss_rule_wins:
  assumes "stop_loss h = Some sl" and "sl \<noteq> 0"
    and "(cur_price - sl) / sl * 100 \<le> 2"
  shows "action (determine_action h cur_price pnl_percent days_held fund tech) = STOP_LOSS_HIT
         \<and> priority (determine_action h cur_price pnl_percent days_held fund tech) = URGENT"
  using assms by (simp add: determine_action_def stop_loss_check_def Let_def)

text \<open>
  The example of the claim: average price 100, current price 101, stop loss 100. The
  target price is reached as well, and the stop-loss rule still decides.
\<close>

theorem stop_loss_rule_wins_witness:
  "stop_loss \<lparr>holding_ticker = ''TCS'', quantity = 10, avg_price = 100,
              stop_loss = Some 100, target_price = Some 101\<rparr> = Some 100
   \<and> (100 :: rat) \<noteq> 0 \<and> ((101 :: rat) - 100) / 100 * 100 \<le> 2
   \<and> map_sum id action
        (analyze_single_holding
           \<lparr>holding_ticker = ''TCS'', quantity = 10, avg_price = 100,
            stop_loss = Some 100, target_price = Some 101\<rparr>
           101 30 (Returned (empty_dict\<lparr>score := Some 90\<rparr>))
           (Returned (empty_dict\<lparr>score := Some 90\<rparr>))) = Inr STOP_LOSS_HIT
   \<and> map_sum id priority
        (analyze_single_holding
           \<lparr>holding_ticker = ''TCS'', quantity = 10, avg_price = 100,
            stop_loss = Some 100, target_price = Some 101\<rparr>
           101 30 (Returned (empty_dict\<lparr>score := Some 90\<rparr>))
           (Returned (empty_dict\<lparr>score := Some 90\<rparr>))) = Inr URGENT"
proof -
  have d: "((101 :: rat) - 100) / 100 * 100 \<le> 2" by simp
  have n: "(100 :: rat) \<noteq> 0" by simp
  show ?thesis
    unfolding analyze_single_holding_def gathered_analysis_def
    using stop_loss_rule_wins
            [of "\<lparr>holding_ticker = ''TCS'', quantity = 10, avg_price = 100,
                  stop_loss = Some 100, target_price = Some 101\<rparr>" 100 101, OF _ n d]
    by simp
qed

text \<open>
  C6: for every holding for which the stop-loss rule does not fire (no stop loss, a stop
  loss of zero, or a current price more than 2 percent above it) and whose profit and
  loss percentage is at most -15, the decision is BOOK_ALL with priority URGENT when the
  score in the fundamental analysis is below 40, and HOLD with priority HIGH otherwise:
  when that score is 40 or more, and when there is no fundamental analysis or no score
  in it.
\<close>

theorem large_loss_rule:
  assumes "stop_loss h = None
           \<or> (\<exists>sl. stop_loss h = Some sl \<and> (sl = 0 \<or> 2 < (cur_price - sl) / sl * 100))"
    and "pnl_percent \<le> - 15"
  shows "(fund = Some d \<and> score d = Some sc \<and> sc < 40 \<longrightarrow>
            action (determine_action h cur_price pnl_percent days_held fund tech) = BOOK_ALL
            \<and> priority (determine_action h cur_price pnl_percent days_held fund tech) = URGENT)
         \<and> (fund = Some d \<and> score d = Some sc \<and> 40 \<le> sc \<longrightarrow>
            action (determine_action h cur_price pnl_percent days_held fund tech) = HOLD
            \<and> priority (determine_action h cur_price pnl_percent days_held fund tech) = HIGH)
         \<and> (fund = None \<or> (fund = Some d \<and> score d = None) \<longrightarrow>
            action (determine_action h cur_price pnl_percent days_held fund tech) = HOLD
            \<and> priority (determine_action h cur_price pnl_percent days_held fund tech) = HIGH)"
proof -
  have c: "stop_loss_check h cur_price = None"
    using assms(1) by (auto simp add: stop_loss_check_def)
  show ?thesis
    using assms(2)
    by (auto simp add: determine_action_def Let_def c agent_score_def get_or_def)
qed

text \<open>
  The example of the claim: average price 100, current price 80, fundamental score 30;
  the profit and loss percentage is -20 and the decision is BOOK_ALL, URGENT. With a
  fundamental score of 90, and with a fundamental producer that raised, the same holding
  gets HOLD, HIGH.
\<close>

theorem large_loss_rule_witness:
  "holding_pnl_percent \<lparr>holding_ticker = ''TCS'', quantity = 10, avg_price = 100,
                          stop_loss = None, target_price = None\<rparr> 80 = - 20
   \<and> map_sum id (\<lambda>d. (action d, priority d))
        (analyze_single_holding
           \<lparr>holding_ticker = ''TCS'', quantity = 10, avg_price = 100,
            stop_loss = None, target_price = None\<rparr>
           80 30 (Returned (empty_dict\<lparr>score := Some 30\<rparr>))
           (Returned (empty_dict\<lparr>score := Some 50\<rparr>))) = Inr (BOOK_ALL, URGENT)
   \<and> map_sum id (\<lambda>d. (action d, priority d))
        (analyze_single_holding
           \<lparr>holding_ticker = ''TCS'', quantity = 10, avg_price = 100,
            stop_loss = None, target_price = None\<rparr>
           80 30 (Returned (empty_dict\<lparr>score := Some 90\<rparr>))
           (Returned (empty_dict\<lparr>score := Some 50\<rparr>))) = Inr (HOLD, HIGH)
   \<and> map_sum id (\<lambda>d. (action d, priority d))
        (analyze_single_holding
           \<lparr>holding_ticker = ''TCS'', quantity = 10, avg_price = 100,
            stop_loss = None, target_price = None\<rparr>
           80 30 (Raised ''timeout'')
           (Returned (empty_dict\<lparr>score := Some 50\<rparr>))) = Inr (HOLD, HIGH)"
proof -
  let ?h = "\<lparr>holding_ticker = ''TCS'', quantity = 10, avg_price = 100,
             stop_loss = None, target_price = None\<rparr>"
  have s: "stop_loss ?h = None
           \<or> (\<exists>sl. stop_loss ?h = Some sl \<and> (sl = 0 \<or> 2 < (80 - sl) / sl * 100))"
    by simp
  have p: "holding_pnl_percent ?h 80 = - 20"
    by (simp add: holding_pnl_percent_def Let_def)
  have p15: "holding_pnl_percent ?h 80 \<le> - 15"
    unfolding p by simp
  note low = large_loss_rule [OF s p15, of "Some (empty_dict\<lparr>score := Some 30\<rparr>)"
                                "empty_dict\<lparr>score := Some 30\<rparr>" 30 30
                                "Some (empty_dict\<lparr>score := Some 50\<rparr>)"]
  note high = large_loss_rule [OF s p15, of "Some (empty_dict\<lparr>score := Some 90\<rparr>)"
                                 "empty_dict\<lparr>score := Some 90\<rparr>" 90 30
                                 "Some (empty_dict\<lparr>score := Some 50\<rparr>)"]
  note none = large_loss_rule [OF s p15, of None empty_dict 0 30
                                 "Some (empty_dict\<lparr>score := Some 50\<rparr>)"]
  show ?thesis
    unfolding analyze_single_holding_def gathered_analysis_def
    using low high none p by simp
qed

section \<open>Pipelines\<close>

lemma run_full_analysis:
  "intent_type i = FULL_ANALYSIS \<or> intent_type i = DEEP_DIVE \<Longrightarrow>
   ticker (initial_state i uid) \<noteq> [] \<Longrightarrow>
   run e i uid =
     (case run_risk_analysis e (run_parallel_analysis e
             (collect_all_data e (initial_state i uid))) of
        Inl c \<Rightarrow> Inl c
      | Inr s \<Rightarrow> run_synthesis e s)"
  by (auto simp add: run_def Let_def graph_map_def deep_dive_graph_def
        full_analysis_graph_def returning_def split: sum.splits)

lemma run_comparison:
  "intent_type i = COMPARISON \<Longrightarrow> ticker (initial_state i uid) \<noteq> [] \<Longrightarrow>
   run e i uid =
     run_comparison_synthesis e (run_parallel_comparison_analysis e
       (collect_comparison_data e (initial_state i uid)))"
  by (simp add: run_def Let_def graph_map_def comparison_graph_def returning_def
      split: sum.splits)

lemma synthesis_data_lookups:
  "map_of (synthesis_data s) ''fundamental_analysis'' = None"
  "map_of (synthesis_data s) ''technical_analysis'' = None"
  "map_of (synthesis_data s) ''market_intel_analysis'' = None"
  "map_of (synthesis_data s) ''risk_analysis'' = None"
  "map_of (synthesis_data s) ''user_context'' = None"
  "map_of (synthesis_data s) ''stock_data'' = Some (stock_value (stock_data s))"
  by (simp_all add: synthesis_data_def)

lemma neutral_scores:
  "calculate_weighted_scores empty_dict empty_dict empty_dict empty_dict empty_context =
     \<lparr>fundamental_score = 50, technical_score = 50, market_intel_score = 50,
      reported_risk_score = 50, weighted_average = 50, confidence_adjustment = 10,
      final_score = 60,
      weights_used = \<lparr>fundamental = 30 / 100, technical = 40 / 100, market_intel = 20 / 100,
                      risk = 10 / 100\<rparr>,
      conflicts = []\<rparr>"
  by (simp add: calculate_weighted_scores_def Let_def get_or_def empty_context_def
      empty_dict_def select_weights_def lower_def lower_char_def normalize_signal_def
      upper_def upper_char_def bullish_def bearish_def detect_conflicts_def
      adjust_for_conflicts_def round2_def)

text \<open>
  C3: the dictionary built by the synthesis stage has the keys \<open>stock_data\<close>,
  \<open>fundamental\<close>, \<open>technical\<close>, \<open>market_intel\<close> and \<open>risk\<close>, while \<open>analyze\<close> reads
  \<open>fundamental_analysis\<close>, \<open>technical_analysis\<close>, \<open>market_intel_analysis\<close> and
  \<open>risk_analysis\<close>. So for every pipeline state the weighted-score block has 50 for each
  of the four component scores, no conflict, weighted average 50 and final score 60.
\<close>

theorem synthesis_stage_scores_are_neutral:
  "map fst (synthesis_data s) =
     [''stock_data'', ''fundamental'', ''technical'', ''market_intel'', ''risk'']
   \<and> analyze_scores (synthesis_data s) =
       Inr \<lparr>fundamental_score = 50, technical_score = 50, market_intel_score = 50,
            reported_risk_score = 50, weighted_average = 50, confidence_adjustment = 10,
            final_score = 60,
            weights_used = \<lparr>fundamental = 30 / 100, technical = 40 / 100,
                            market_intel = 20 / 100, risk = 10 / 100\<rparr>,
            conflicts = []\<rparr>"
proof -
  have keys: "map fst (synthesis_data s) =
     [''stock_data'', ''fundamental'', ''technical'', ''market_intel'', ''risk'']"
    by (simp add: synthesis_data_def)
  have "analyze_scores (synthesis_data s) =
          Inr (calculate_weighted_scores empty_dict empty_dict empty_dict empty_dict empty_context)"
    by (simp add: analyze_scores_def Let_def data_get_def synthesis_data_lookups
        as_analysis_def as_context_def)
  with keys show ?thesis by (simp only: neutral_scores simp_thms)
qed

text \<open>
  The state that reaches the synthesis stage of the STANDARD pipeline when every
  producer returns a score of 90.
\<close>

lemma state_before_synthesis:
  "run_risk_analysis all_succeed (run_parallel_analysis all_succeed
     (collect_all_data all_succeed (initial_state full_analysis_intent None))) =
   Inr ((initial_state full_analysis_intent None)
         \<lparr>stock_data := Some (sample_stock ''TCS''),
          news_data := Some (Dict [''headline'']),
          market_data := Some [(''NIFTY'', 22000)],
          fundamental_analysis := Some (Dict sample_analysis),
          technical_analysis := Some (Dict sample_analysis),
          market_intel_analysis := Some (Dict sample_analysis),
          risk_analysis := Some (Dict sample_analysis),
          progress := [''Stock data collected (3 days historical)'', ''News data collected'',
                       ''Market data collected'', ''Fundamental: 90/100'',
                       ''Technical: 90/100'', ''Market Intel: 90/100'', ''Risk: 20/100'']\<rparr>)"
  by (simp add: run_risk_analysis_def run_parallel_analysis_def collect_all_data_def
      process_stock_data_def process_news_data_def process_market_data_def then_do_def
      handled_def handle_parallel_result_def store_parallel_def parallel_label_def
      initial_state_def full_analysis_intent_def all_succeed_def sample_stock_def
      sample_analysis_def add_progress_def add_error_def Let_def score_text_def get_or_def
      str_int_def str_nat.simps digit_char_def numeral_2_eq_2)

theorem synthesis_stage_scores_are_neutral_witness:
  "(case run_risk_analysis all_succeed (run_parallel_analysis all_succeed
           (collect_all_data all_succeed (initial_state full_analysis_intent None))) of
      Inl c \<Rightarrow> False
    | Inr s \<Rightarrow>
        fundamental_analysis s = Some (Dict sample_analysis)
        \<and> technical_analysis s = Some (Dict sample_analysis)
        \<and> market_intel_analysis s = Some (Dict sample_analysis)
        \<and> risk_analysis s = Some (Dict sample_analysis)
        \<and> analyze_scores (synthesis_data s)
          = Inr \<lparr>fundamental_score = 50, technical_score = 50, market_intel_score = 50,
                 reported_risk_score = 50, weighted_average = 50, confidence_adjustment = 10,
                 final_score = 60,
                 weights_used = \<lparr>fundamental = 30 / 100, technical = 40 / 100,
                                 market_intel = 20 / 100, risk = 10 / 100\<rparr>,
                 conflicts = []\<rparr>)"
  unfolding state_before_synthesis
  using synthesis_stage_scores_are_neutral
          [of "(initial_state full_analysis_intent None)
                 \<lparr>stock_data := Some (sample_stock ''TCS''),
                  news_data := Some (Dict [''headline'']),
                  market_data := Some [(''NIFTY'', 22000)],
                  fundamental_analysis := Some (Dict sample_analysis),
                  technical_analysis := Some (Dict sample_analysis),
                  market_intel_analysis := Some (Dict sample_analysis),
                  risk_analysis := Some (Dict sample_analysis),
                  progress := [''Stock data collected (3 days historical)'',
                               ''News data collected'', ''Market data collected'',
                               ''Fundamental: 90/100'', ''Technical: 90/100'',
                               ''Market Intel: 90/100'', ''Risk: 20/100'']\<rparr>"]
  by simp






text \<open>
  C2 fails on the COMPARISON topology. \<open>_run_comparison_synthesis\<close> calls \<open>compare\<close> with
  the keywords \<open>ticker1\<close>, \<open>ticker2\<close>, \<open>stock_data_1\<close>, ..., none of which is a parameter of
  \<open>compare(self, stock1_data, stock2_data)\<close>; the call raises TypeError in every state,
  the handler records it, and the recommendation slot stays as it was.
\<close>

lemma compare_rejects_comparison_kwargs:
  "compare e (comparison_kwargs s) =
     Raised (''ComparisonSynthesizerAgent.compare() got an unexpected keyword argument ''
             @ quoted ''ticker1'')"
  by (simp add: compare_def bind_keywords_def compare_params_def comparison_kwargs_def)

lemma run_comparison_synthesis_always_fails:
  "run_comparison_synthesis e s =
     Inr (add_error (''Comparison error: ''
                     @ ''ComparisonSynthesizerAgent.compare() got an unexpected keyword argument ''
                     @ quoted ''ticker1'') s)"
  by (simp add: run_comparison_synthesis_def compare_rejects_comparison_kwargs)

text \<open>
  The same holds of every COMPARISON run that gets past the ticker check, whatever the
  collaborators do: the run returns, no stage before the last one writes the
  recommendation slot, and the last one always records the TypeError.
\<close>

lemma handled_recommendation:
  "synthesized_recommendation (handled tag r) = synthesized_recommendation (fst r)"
  by (cases r) (simp add: handled_def add_error_def split: option.splits)

lemma then_do_recommendation:
  assumes "synthesized_recommendation (fst r) = x"
    and "\<And>s. synthesized_recommendation s = x \<Longrightarrow> synthesized_recommendation (fst (f s)) = x"
  shows "synthesized_recommendation (fst (then_do r f)) = x"
  using assms by (cases r) (auto simp add: then_do_def split: option.splits)

lemma store_fetched_recommendation:
  assumes "\<And>sd st. synthesized_recommendation (store sd st) = synthesized_recommendation st"
  shows "synthesized_recommendation (fst (store_fetched tk r store s))
         = synthesized_recommendation s"
  using assms
  by (simp add: store_fetched_def add_progress_def add_error_def
      split: outcome.splits option.splits)

lemma collect_comparison_data_recommendation:
  "synthesized_recommendation (collect_comparison_data e s) = synthesized_recommendation s"
  by (simp add: collect_comparison_data_def add_error_def Let_def handled_recommendation
      then_do_recommendation store_fetched_recommendation split: option.splits)

lemma store_comparison_result_recommendation:
  assumes "\<And>v st. synthesized_recommendation (store v st) = synthesized_recommendation st"
  shows "synthesized_recommendation (fst (store_comparison_result label r store s))
         = synthesized_recommendation s"
  using assms by (simp add: store_comparison_result_def add_progress_def split: outcome.splits)

lemma run_parallel_comparison_analysis_recommendation:
  "synthesized_recommendation (run_parallel_comparison_analysis e s)
   = synthesized_recommendation s"
  by (simp add: run_parallel_comparison_analysis_def add_error_def Let_def
      handled_recommendation then_do_recommendation store_comparison_result_recommendation
      split: option.splits)

lemma comparison_run_never_fills_recommendation:
  assumes "intent_type i = COMPARISON" and "ticker (initial_state i uid) \<noteq> []"
  shows "\<exists>s. run e i uid = Inr s \<and> errors s \<noteq> [] \<and> synthesized_recommendation s = None"
proof -
  have "synthesized_recommendation (initial_state i uid) = None"
    by (simp add: initial_state_def)
  then show ?thesis
    unfolding run_comparison [OF assms] run_comparison_synthesis_always_fails
    by (simp add: add_error_def run_parallel_comparison_analysis_recommendation
        collect_comparison_data_recommendation)
qed

text \<open>
  C2, at the failing input: a COMPARISON run on TCS and INFY in which both data
  collections and all four producers succeed. The run returns; every slot filled by the
  first two stages is populated, and yet \<open>errors\<close> is not empty and
  \<open>synthesized_recommendation\<close> is empty.
\<close>

theorem comparison_run_with_all_producers_succeeding:
  "(case run all_succeed comparison_intent None of
      Inl c \<Rightarrow> False
    | Inr s \<Rightarrow>
        stock_data s = Some (sample_stock ''TCS'')
        \<and> stock_data_2 s = Some (sample_stock ''INFY'')
        \<and> fundamental_analysis s = Some (Dict sample_analysis)
        \<and> technical_analysis s = Some (Dict sample_analysis)
        \<and> fundamental_analysis_2 s = Some (Dict sample_analysis)
        \<and> technical_analysis_2 s = Some (Dict sample_analysis)
        \<and> errors s =
            [''Comparison error: ''
             @ ''ComparisonSynthesizerAgent.compare() got an unexpected keyword argument ''
             @ quoted ''ticker1'']
        \<and> synthesized_recommendation s = None)"
proof -
  have t: "ticker (initial_state comparison_intent None) \<noteq> []"
    by (simp add: initial_state_def comparison_intent_def)
  have c: "intent_type comparison_intent = COMPARISON"
    by (simp add: comparison_intent_def)
  show ?thesis
    unfolding run_comparison [OF c t] run_comparison_synthesis_always_fails
    by (simp add: run_parallel_comparison_analysis_def collect_comparison_data_def
        store_comparison_result_def store_fetched_def then_do_def handled_def
        initial_state_def comparison_intent_def all_succeed_def
        add_error_def add_progress_def Let_def get_or_def)
qed

end
